theory Spec2Isabelle
  imports Complex_Main "HOL-Library.Word" "HOL-Library.Sublist"
begin

section \<open>Numbers and strings of the host language\<close>

text \<open>
  A JavaScript number is modelled as a real; the one non-number that the distance
  computation can produce, NaN, is \<open>None\<close>. \<open>Math.sqrt\<close> of a negative number is NaN,
  NaN propagates through arithmetic and \<open>Math.atan2\<close>, and every comparison with NaN is
  false. Rounding of IEEE doubles is not modelled.
\<close>

definition Math_sqrt :: "real \<Rightarrow> real option" where
  "Math_sqrt x = (if x < 0 then None else Some (sqrt x))"

definition Math_atan2 :: "real \<Rightarrow> real \<Rightarrow> real" where
  "Math_atan2 y x =
     (if 0 < x then arctan (y / x)
      else if x < 0 then (if 0 \<le> y then arctan (y / x) + pi else arctan (y / x) - pi)
      else if 0 < y then pi / 2
      else if y < 0 then - (pi / 2)
      else 0)"

definition number_gt :: "real option \<Rightarrow> real \<Rightarrow> bool" where
  "number_gt x y = (case x of None \<Rightarrow> False | Some v \<Rightarrow> y < v)"

text \<open>
  A string is its sequence of UTF-16 code units. \<open>js\<close> embeds an ASCII literal.
  \<open>trim\<close> removes the WhiteSpace and LineTerminator code units of ECMAScript from both
  ends; a string is falsy exactly when it is empty.
\<close>

type_synonym jsstring = "16 word list"

definition js :: "string \<Rightarrow> jsstring" where
  "js s = map (\<lambda>c. of_nat (of_char c)) s"

definition joinLines :: "jsstring list \<Rightarrow> jsstring" where
  "joinLines ls = (case ls of [] \<Rightarrow> [] | l # rest \<Rightarrow> l @ concat (map (\<lambda>x. 0x0A # x) rest))"

definition isWhiteSpace :: "16 word \<Rightarrow> bool" where
  "isWhiteSpace c \<longleftrightarrow>
     c \<in> {0x9, 0xA, 0xB, 0xC, 0xD, 0x20, 0xA0, 0x1680,
          0x2028, 0x2029, 0x202F, 0x205F, 0x3000, 0xFEFF}
     \<or> (0x2000 \<le> c \<and> c \<le> 0x200A)"

definition trim :: "jsstring \<Rightarrow> jsstring" where
  "trim s = rev (dropWhile isWhiteSpace (rev (dropWhile isWhiteSpace s)))"

text \<open>
  A template literal that interpolates numbers is kept as a sequence of pieces; the
  conversion of a double to its decimal text is left to \<open>render\<close>'s argument.
\<close>

datatype TextPiece = Lit jsstring | Num real

fun render :: "(real \<Rightarrow> jsstring) \<Rightarrow> TextPiece list \<Rightarrow> jsstring" where
  "render f [] = []"
| "render f (Lit s # ps) = s @ render f ps"
| "render f (Num x # ps) = f x @ render f ps"

section \<open>types.ts\<close>

datatype Role = user | model

datatype RoutePreference = FASTEST | LEAST_CROWDED | LOW_WALKING | FEWEST_TRANSFERS

fun RoutePreference_text :: "RoutePreference \<Rightarrow> jsstring" where
  "RoutePreference_text FASTEST = js ''FASTEST''"
| "RoutePreference_text LEAST_CROWDED = js ''LEAST_CROWDED''"
| "RoutePreference_text LOW_WALKING = js ''LOW_WALKING''"
| "RoutePreference_text FEWEST_TRANSFERS = js ''FEWEST_TRANSFERS''"

record UserPreferences =
  routePreference :: RoutePreference
  accessibilityRequired :: bool
  useCurrentLocation :: bool

record Source =
  uri :: jsstring
  title :: jsstring

text \<open>Both fields of a grounding chunk are optional; a chunk may carry both or neither.\<close>

record GroundingChunk =
  web :: "Source option"
  maps :: "Source option"

text \<open>
  \<open>timestamp\<close> is a \<open>Date\<close>, kept as milliseconds. \<open>isError\<close> and \<open>groundingChunks\<close>
  are optional fields: \<open>None\<close> is \<open>undefined\<close>.
\<close>

record ChatMessage =
  msg_id :: jsstring
  msg_role :: Role
  msg_text :: jsstring
  msg_timestamp :: int
  isError :: "bool option"
  groundingChunks :: "GroundingChunk list option"

record LatLng =
  lat :: real
  lng :: real

record TimedLatLng = LatLng +
  timestamp :: int

section \<open>services/geminiService.ts\<close>

text \<open>The fixed prose of the instruction template, between its substitutions.\<close>

definition instruction_preamble :: jsstring where
  "instruction_preamble = joinLines
     [[],
      js ''    You are \"EasyTra,\" a super friendly and intelligent AI Trip Assistant. '',
      js ''    Your mission is to provide accurate, real-time, and personalized mobility advice with a warm, helpful attitude.'',
      js ''    '',
      js ''    USER PROFILE & PREFERENCES:'',
      js ''    '']"

definition instruction_separator :: jsstring where
  "instruction_separator = joinLines
     [[],
      [],
      js ''    '']"

definition instruction_rules :: jsstring where
  "instruction_rules = joinLines
     [[],
      [],
      js ''    CORE CAPABILITIES & RULES:'',
      js ''    1. **Real-Time Data (CRITICAL):** You have access to Google Search and Google Maps. You MUST use them to check for real-time service alerts, delays, weather conditions, current events, and TRAFFIC CONGESTION that impact transit. Do not guess.'',
      js ''    2. **Traffic Reporting:** If you find evidence of heavy traffic, road closures, or congestion, you MUST explicitly mention \"High Traffic\" or \"Heavy Congestion\" in your text response.'',
      js ''    3. **Train & IRCTC Integration:** When the user asks for a destination involving intercity travel (e.g., \"Go to Mumbai\", \"Travel to Delhi\"), you MUST use Google Search to find **IRCTC train schedules** and availability.'',
      js ''       - You MUST list the top available trains.'',
      js ''       - For each train, provide: **Train Name/Number**, **Est. Departure**, **Est. Arrival**, **Total Duration**, and **Approx. Fare/Price**.'',
      js ''    4. **Bus & Fare Breakdown:** Use Google Search to find current bus ticket prices on platforms like **RedBus** or similar services. '',
      js ''       - **You MUST list fares SEPARATELY** for: **Bus**, **Train**, and **Metro** (where available). Do not lump them together.'',
      js ''    5. **Mode Comparison:** For intercity trips, provide a **\"'' @ [0xD83D, 0xDE86] @ js '' Train vs. '' @ [0xD83D, 0xDE8C] @ js '' Bus Comparison\"** section. Compare them based on:'',
      js ''       - **Comfort** (e.g., AC Sleeper bus vs. Train berth).'',
      js ''       - **Availability** (Frequency and booking ease).'',
      js ''       - **Price** (Cost effectiveness).'',
      js ''       - **User Experience** (Online sentiment/ratings).'',
      js ''    6. **Source Fusion:** Combine schedule data found via Search with external factors (weather, traffic).'',
      js ''    7. **Crowd Forecasting:** If real-time crowd data is not found, use historical reasoning (e.g., \"5 PM on a Friday implies high congestion\") and state clearly that it is a prediction.'',
      js ''    8. **Optimization:** tailored to the user's optimization goal ('']"

definition instruction_format :: jsstring where
  "instruction_format = joinLines
     [js '').'',
      js ''    9. **Location Handling:** '',
      js ''       - IF the user does NOT specify a starting point, assume they are starting from their current location (provided above). '',
      js ''       - IF the user specifies a starting point (e.g., \"from Central Station\"), use that instead.'',
      js ''    10. **Smart Traffic Management (Crucial for Road Trips):**'',
      js ''        - IF you detect **Heavy Traffic/Congestion**:'',
      js ''          a) You MUST search for and provide an **Alternative Route** (even if it's slightly longer in distance, it might be faster).'',
      js ''          b) You MUST suggest a **Better Departure Time** (e.g., \"Departing in 45 mins will save you ~15 mins\" or \"Wait until 7 PM for traffic to clear\").'',
      js ''    11. **Walking Directions:** When suggesting a public transit route, you MUST include a specific section for walking directions from the start point to the nearest station/stop.'',
      js ''        - If 'Accessibility Requirements' are active, you MUST explicitly confirm the station is wheelchair accessible (elevators/ramps) and the walking path is step-free.'',
      js ''    '',
      js ''    OUTPUT FORMAT:'',
      js ''    - **TRIP STATS HEADER:** Start your main response (after a brief greeting if appropriate) with a dedicated separate line containing these details:'',
      js ''      **'' @ [0xD83C, 0xDF24, 0xFE0F] @ js '' Weather: [Condition/Temp] | '' @ [0x23F1, 0xFE0F] @ js '' Duration: [Total Time] | '' @ [0xD83D, 0xDCCF] @ js '' Distance: [Value] | '' @ [0xD83D, 0xDCB0] @ js '' Est. Fare: [Range Min-Max] | '' @ [0xD83D, 0xDEE3, 0xFE0F] @ js '' Tolls: [Count or N/A]**'',
      js ''    - **Detailed Fares:** Include a distinct section listing: \"'' @ [0xD83D, 0xDE8C] @ js '' Bus: ~'' @ [0x20B9] @ js ''X | '' @ [0xD83D, 0xDE86] @ js '' Train: ~'' @ [0x20B9] @ js ''Y | '' @ [0xD83D, 0xDE87] @ js '' Metro: ~'' @ [0x20B9] @ js ''Z\".'',
      js ''    - **Train Details (If applicable):** If trains are involved, present them in a clear bulleted list or markdown table including prices.'',
      js ''    - **comparison (If applicable):** The Bus vs. Train analysis.'',
      js ''    - **'' @ [0xD83D, 0xDEB6] @ js '' To Station:** Provide brief walking directions to the first stop.'',
      js ''    - **'' @ [0xD83D, 0xDCA1] @ js '' Smart Tips (If Traffic/Delay):** If heavy traffic is found, include a section with:'',
      js ''      - **'' @ [0xD83D, 0xDD00] @ js '' Alt Route:** [Brief description of alternate path]'',
      js ''      - **'' @ [0x23F3] @ js '' Best Time to Leave:** [Suggestion for when to start trip]'',
      js ''    - **Concise:** Keep responses under 300 words unless a complex itinerary is needed.'',
      js ''    - **Structure:** Use clear headings, bullet points, and bold text for times/route numbers.'',
      js ''    - **Transparency:** If data is missing (e.g., specific vehicle location), state: \"Real-time data temporarily unavailable; using schedule/historical averages.\"'',
      js ''    - **Call to Action:** ALWAYS end with a single, clear, friendly question (e.g., \"Shall I save this route for you?\" or \"Want walking directions to the stop?\").'',
      [],
      js ''    TONE:'',
      js ''    Friendly, enthusiastic, warm, and helpful. Avoid being overly stiff or formal. Use natural language and occasional emojis (like '' @ [0xD83D, 0xDE8C] @ js '', '' @ [0xD83D, 0xDE82] @ js '', '' @ [0xD83D, 0xDEA6] @ js '', '' @ [0xD83D, 0xDC4B] @ js '') to sound approachable, but keep navigation details clear and precise.'',
      js ''  '']"

definition preferences_goal_label :: jsstring where
  "preferences_goal_label = joinLines
     [[],
      js ''    - Primary Optimization Goal: '']"

definition preferences_accessibility_label :: jsstring where
  "preferences_accessibility_label = joinLines
     [[],
      js ''    - Accessibility Requirements: '']"

definition preferences_end :: jsstring where
  "preferences_end = joinLines
     [[],
      js ''  '']"

text \<open>\<open>getSystemInstruction\<close>: the two inner templates, then the returned one.\<close>

definition preferencesText :: "UserPreferences \<Rightarrow> jsstring" where
  "preferencesText prefs =
     preferences_goal_label @ RoutePreference_text (routePreference prefs) @
     preferences_accessibility_label @
     (if accessibilityRequired prefs then js ''Must be wheelchair accessible/step-free.''
      else js ''None.'') @
     preferences_end"

definition locationContext :: "LatLng option \<Rightarrow> TextPiece list" where
  "locationContext userLocation =
     (case userLocation of
        Some l \<Rightarrow>
          [Lit (js ''USER LOCATION: The user is currently located at Lat: ''), Num (lat l),
           Lit (js '', Lng: ''), Num (lng l), Lit (js ''.'')]
      | None \<Rightarrow> [Lit (js ''USER LOCATION: Unknown.'')])"

definition getSystemInstruction :: "UserPreferences \<Rightarrow> LatLng option \<Rightarrow> TextPiece list" where
  "getSystemInstruction prefs userLocation =
     [Lit instruction_preamble, Lit (preferencesText prefs), Lit instruction_separator] @
     locationContext userLocation @
     [Lit instruction_rules, Lit (RoutePreference_text (routePreference prefs)),
      Lit instruction_format]"

text \<open>
  What \<open>sendMessageToGemini\<close> hands to the remote service: the arguments of
  \<open>ai.chats.create\<close> that depend on its inputs, and the live message of
  \<open>chat.sendMessage\<close>. The model name and the tool list are constants.
\<close>

record ChatRequest =
  req_systemInstruction :: "TextPiece list"
  req_toolConfig :: "LatLng option"
  req_history :: "(Role \<times> jsstring) list"
  req_message :: jsstring

definition validHistory :: "ChatMessage list \<Rightarrow> ChatMessage list" where
  "validHistory history = filter (\<lambda>m. isError m \<noteq> Some True) history"

definition sendMessageToGemini_request ::
  "ChatMessage list \<Rightarrow> jsstring \<Rightarrow> UserPreferences \<Rightarrow> LatLng option \<Rightarrow> ChatRequest" where
  "sendMessageToGemini_request history newMessage preferences userLocation =
     \<lparr> req_systemInstruction = getSystemInstruction preferences userLocation,
       req_toolConfig = userLocation,
       req_history = map (\<lambda>m. (msg_role m, msg_text m)) (validHistory history),
       req_message = newMessage \<rparr>"

text \<open>
  The remote call either answers with a text and optional grounding chunks, or fails;
  every failure inside the \<open>try\<close> is rethrown as one \<open>Error\<close> with a fixed message.
\<close>

datatype ServiceOutcome = Answered jsstring "GroundingChunk list option" | Failed

record ServiceResponse =
  resp_text :: jsstring
  resp_groundingChunks :: "GroundingChunk list option"

datatype Error = Error jsstring

definition sendMessageToGemini_result :: "ServiceOutcome \<Rightarrow> Error + ServiceResponse" where
  "sendMessageToGemini_result outcome =
     (case outcome of
        Answered t g \<Rightarrow> Inr \<lparr> resp_text = t, resp_groundingChunks = g \<rparr>
      | Failed \<Rightarrow>
          Inl (Error (js ''I'm having trouble connecting to the transit network right now. Please try again in a moment.'')))"

section \<open>components/ChatMessage.tsx\<close>

text \<open>
  The single-map policy: \<open>c.maps?.uri\<close> is truthy when the chunk has a \<open>maps\<close> field
  whose \<open>uri\<close> is a non-empty string; an absent chunk list gives the empty list.
\<close>

definition hasMapUri :: "GroundingChunk \<Rightarrow> bool" where
  "hasMapUri c = (case maps c of None \<Rightarrow> False | Some m \<Rightarrow> uri m \<noteq> [])"

definition mapChunks :: "ChatMessage \<Rightarrow> GroundingChunk list" where
  "mapChunks message =
     (case groundingChunks message of None \<Rightarrow> [] | Some cs \<Rightarrow> filter hasMapUri cs)"

definition primaryMapChunk :: "ChatMessage \<Rightarrow> GroundingChunk option" where
  "primaryMapChunk message =
     (if length (mapChunks message) > 0 then Some (mapChunks message ! 0) else None)"

text \<open>
  The reconciler as the specification words it: every web citation, and of the map
  citations only the first, in source order. A chunk counts as a map citation when it
  has a \<open>maps\<close> field.
\<close>

fun reconcile_spec :: "bool \<Rightarrow> GroundingChunk list \<Rightarrow> GroundingChunk list" where
  "reconcile_spec seen [] = []"
| "reconcile_spec seen (c # cs) =
     (if maps c = None then c # reconcile_spec seen cs
      else if seen then reconcile_spec True cs
      else c # reconcile_spec True cs)"

section \<open>components/InputArea.tsx\<close>

text \<open>
  \<open>handleSubmit\<close> reads the component's \<open>input\<close> and the \<open>isLoading\<close> prop. The result
  is the argument of the \<open>onSend\<close> call, if one is made, and the new \<open>input\<close>.
\<close>

definition handleSubmit :: "jsstring \<Rightarrow> bool \<Rightarrow> jsstring option \<times> jsstring" where
  "handleSubmit input isLoading =
     (if trim input = [] \<or> isLoading then (None, input) else (Some input, []))"

section \<open>App.tsx\<close>

definition deg2rad :: "real \<Rightarrow> real" where
  "deg2rad deg = deg * (pi / 180)"

definition getDistanceFromLatLonInMeters ::
  "real \<Rightarrow> real \<Rightarrow> real \<Rightarrow> real \<Rightarrow> real option" where
  "getDistanceFromLatLonInMeters lat1 lon1 lat2 lon2 =
     (let R = 6371;
          dLat = deg2rad (lat2 - lat1);
          dLon = deg2rad (lon2 - lon1);
          a = sin (dLat / 2) * sin (dLat / 2) +
              cos (deg2rad lat1) * cos (deg2rad lat1) *
              sin (dLon / 2) * sin (dLon / 2)
      in case Math_sqrt a of
           None \<Rightarrow> None
         | Some sa \<Rightarrow>
            (case Math_sqrt (1 - a) of
               None \<Rightarrow> None
             | Some sb \<Rightarrow>
                 (let c = 2 * Math_atan2 sa sb;
                      d = R * c
                  in Some (d * 1000))))"

text \<open>
  The haversine great-circle distance in meters on a sphere of radius 6371 km, as the
  specification names it.
\<close>

definition haversine_meters :: "real \<Rightarrow> real \<Rightarrow> real \<Rightarrow> real \<Rightarrow> real" where
  "haversine_meters lat1 lon1 lat2 lon2 =
     (let p1 = lat1 * pi / 180;
          p2 = lat2 * pi / 180;
          dp = (lat2 - lat1) * pi / 180;
          dl = (lon2 - lon1) * pi / 180;
          h = (sin (dp / 2))\<^sup>2 + cos p1 * cos p2 * (sin (dl / 2))\<^sup>2
      in 2 * 6371 * arcsin (sqrt h) * 1000)"

text \<open>The component state: the \<open>useState\<close> cells and the \<open>lastLocationRef\<close> ref.\<close>

record AppState =
  messages :: "ChatMessage list"
  isLoading :: bool
  preferences :: UserPreferences
  userLocation :: "LatLng option"
  lastLocationRef :: "TimedLatLng option"

definition welcome_text :: jsstring where
  "welcome_text = joinLines
     [js ''**Hi there! I'm EasyTra!** '' @ [0xD83D, 0xDC4B],
      [],
      js ''I'm here to help you breeze through the city! I'll check live traffic '' @ [0xD83D, 0xDEA6] @ js '', service alerts, and crowd levels to find the absolute best route for you.'',
      [],
      js ''Where are you headed today? '' @ [0xD83C, 0xDF0D]]"

definition welcome_message :: "int \<Rightarrow> ChatMessage" where
  "welcome_message now =
     \<lparr> msg_id = js ''welcome'', msg_role = model, msg_text = welcome_text,
       msg_timestamp = now, isError = None, groundingChunks = None \<rparr>"

definition initial_state :: "int \<Rightarrow> AppState" where
  "initial_state now =
     \<lparr> messages = [welcome_message now],
       isLoading = False,
       preferences = \<lparr> routePreference = FASTEST, accessibilityRequired = False,
                       useCurrentLocation = True \<rparr>,
       userLocation = None,
       lastLocationRef = None \<rparr>"

text \<open>
  The jitter filter of the \<open>success\<close> callback: \<open>shouldUpdate\<close> is the flag it computes
  from the ref, the coordinates of the fix and \<open>Date.now()\<close>.
\<close>

definition shouldUpdate :: "TimedLatLng option \<Rightarrow> real \<Rightarrow> real \<Rightarrow> int \<Rightarrow> bool" where
  "shouldUpdate current latitude longitude now =
     (case current of
        None \<Rightarrow> True
      | Some l \<Rightarrow>
          (let dist = getDistanceFromLatLonInMeters (lat l) (lng l) latitude longitude
           in number_gt dist 20 \<or> now - timestamp l > 60000))"

definition success :: "AppState \<Rightarrow> real \<Rightarrow> real \<Rightarrow> int \<Rightarrow> AppState" where
  "success st latitude longitude now =
     (if shouldUpdate (lastLocationRef st) latitude longitude now
      then st\<lparr> lastLocationRef := Some \<lparr> lat = latitude, lng = longitude, timestamp = now \<rparr>,
               userLocation := Some \<lparr> lat = latitude, lng = longitude \<rparr> \<rparr>
      else st)"

text \<open>
  \<open>handleSendMessage\<close> is asynchronous. Its first part runs up to the \<open>await\<close>: it appends
  the user message, raises the loading flag and issues the request, built from the
  \<open>messages\<close> the handler closed over, which do not contain the new message. Its second
  part runs when the call settles. \<open>uuidv4()\<close> and \<open>new Date()\<close> are arguments.
\<close>

definition handleSendMessage_begin ::
  "AppState \<Rightarrow> jsstring \<Rightarrow> jsstring \<Rightarrow> int \<Rightarrow> AppState \<times> ChatRequest" where
  "handleSendMessage_begin st txt uuid now =
     (let userMsg = \<lparr> msg_id = uuid, msg_role = user, msg_text = txt, msg_timestamp = now,
                      isError = None, groundingChunks = None \<rparr>
      in (st\<lparr> messages := messages st @ [userMsg], isLoading := True \<rparr>,
          sendMessageToGemini_request (messages st) txt (preferences st) (userLocation st)))"

definition handleSendMessage_end ::
  "AppState \<Rightarrow> ServiceOutcome \<Rightarrow> jsstring \<Rightarrow> int \<Rightarrow> AppState" where
  "handleSendMessage_end st outcome uuid now =
     (let st' =
        (case sendMessageToGemini_result outcome of
           Inr response \<Rightarrow>
             (let botMsg = \<lparr> msg_id = uuid, msg_role = model, msg_text = resp_text response,
                             msg_timestamp = now, isError = None,
                             groundingChunks = resp_groundingChunks response \<rparr>
              in st\<lparr> messages := messages st @ [botMsg] \<rparr>)
         | Inl error \<Rightarrow>
             (let errorMsg = \<lparr> msg_id = uuid, msg_role = model,
                               msg_text = js ''I'm having trouble accessing the network right now. Please try again.'',
                               msg_timestamp = now, isError = Some True,
                               groundingChunks = None \<rparr>
              in st\<lparr> messages := messages st @ [errorMsg] \<rparr>))
      in st'\<lparr> isLoading := False \<rparr>)"

text \<open>One call of \<open>handleSendMessage\<close> from start to settlement, nothing in between.\<close>

definition handleSendMessage ::
  "AppState \<Rightarrow> jsstring \<Rightarrow> jsstring \<Rightarrow> int \<Rightarrow> ServiceOutcome \<Rightarrow> jsstring \<Rightarrow> int \<Rightarrow> AppState" where
  "handleSendMessage st txt uuid1 now1 outcome uuid2 now2 =
     handleSendMessage_end (fst (handleSendMessage_begin st txt uuid1 now1)) outcome uuid2 now2"

section \<open>The session as a transition system\<close>

text \<open>
  The page is event driven and single threaded. A world is the \<open>App\<close> state, the text in
  the \<open>InputArea\<close>, and the calls to the remote service that have been issued and have
  not settled yet, oldest first. Each handler runs against the state of the latest render.
\<close>

record World =
  app :: AppState
  input :: jsstring
  inflight :: "ChatRequest list"

text \<open>
  \<open>Typed\<close>: the text area changes. \<open>SubmitForm\<close>: the form is submitted or Enter is
  pressed, which runs \<open>handleSubmit\<close>. \<open>CoreSend\<close>: \<open>handleSendMessage\<close> is called
  directly, not through the \<open>InputArea\<close>. \<open>Settled i\<close>: the \<open>i\<close>-th call in flight
  answers or fails. \<open>Fix\<close>: the position watcher reports a position; the watcher exists
  only while \<open>useCurrentLocation\<close> is set. \<open>FallbackFix\<close>: the one-shot low-accuracy
  request of the \<open>error\<close> callback reports a position, which is stored unfiltered; the
  model lets it arrive at any time, which only adds reachable worlds.
  \<open>SetPreferences\<close>: the settings panel replaces the preferences. Opening and closing
  the settings panel changes nothing modelled here.
\<close>

datatype Event =
    Typed jsstring
  | SubmitForm jsstring int
  | CoreSend jsstring jsstring int
  | Settled nat ServiceOutcome jsstring int
  | Fix real real int
  | FallbackFix real real int
  | SetPreferences UserPreferences

definition send :: "World \<Rightarrow> jsstring \<Rightarrow> jsstring \<Rightarrow> int \<Rightarrow> World" where
  "send w txt uuid now =
     w\<lparr> app := fst (handleSendMessage_begin (app w) txt uuid now),
        inflight := inflight w @ [snd (handleSendMessage_begin (app w) txt uuid now)] \<rparr>"

fun fire :: "World \<Rightarrow> Event \<Rightarrow> World" where
  "fire w (Typed s) = w\<lparr> input := s \<rparr>"
| "fire w (SubmitForm uuid now) =
     (case handleSubmit (input w) (isLoading (app w)) of
        (None, i) \<Rightarrow> w\<lparr> input := i \<rparr>
      | (Some txt, i) \<Rightarrow> (send w txt uuid now)\<lparr> input := i \<rparr>)"
| "fire w (CoreSend txt uuid now) = send w txt uuid now"
| "fire w (Settled i outcome uuid now) =
     (if i < length (inflight w)
      then w\<lparr> app := handleSendMessage_end (app w) outcome uuid now,
              inflight := take i (inflight w) @ drop (Suc i) (inflight w) \<rparr>
      else w)"
| "fire w (Fix latitude longitude now) =
     (if useCurrentLocation (preferences (app w))
      then w\<lparr> app := success (app w) latitude longitude now \<rparr>
      else w)"
| "fire w (FallbackFix latitude longitude now) =
     w\<lparr> app := (app w)\<lparr> lastLocationRef :=
                             Some \<lparr> lat = latitude, lng = longitude, timestamp = now \<rparr>,
                           userLocation := Some \<lparr> lat = latitude, lng = longitude \<rparr> \<rparr> \<rparr>"
| "fire w (SetPreferences p) = w\<lparr> app := (app w)\<lparr> preferences := p \<rparr> \<rparr>"

definition run :: "World \<Rightarrow> Event list \<Rightarrow> World" where
  "run w es = foldl fire w es"

definition initial_world :: "int \<Rightarrow> World" where
  "initial_world now = \<lparr> app = initial_state now, input = [], inflight = [] \<rparr>"

fun viaInputArea :: "Event \<Rightarrow> bool" where
  "viaInputArea (CoreSend txt uuid now) = False"
| "viaInputArea e = True"

section \<open>Example data\<close>

text \<open>A model message grounded by two web pages and two maps, in the order web, map, web, map.\<close>

definition example_webA :: GroundingChunk where
  "example_webA =
     \<lparr> web = Some \<lparr> uri = js ''https://a.example'', title = js ''A'' \<rparr>, maps = None \<rparr>"

definition example_mapM1 :: GroundingChunk where
  "example_mapM1 =
     \<lparr> web = None, maps = Some \<lparr> uri = js ''https://maps.example/1'', title = js ''M1'' \<rparr> \<rparr>"

definition example_webB :: GroundingChunk where
  "example_webB =
     \<lparr> web = Some \<lparr> uri = js ''https://b.example'', title = js ''B'' \<rparr>, maps = None \<rparr>"

definition example_mapM2 :: GroundingChunk where
  "example_mapM2 =
     \<lparr> web = None, maps = Some \<lparr> uri = js ''https://maps.example/2'', title = js ''M2'' \<rparr> \<rparr>"

definition example_message :: ChatMessage where
  "example_message =
     \<lparr> msg_id = js ''m1'', msg_role = model, msg_text = js ''Take the metro.'',
       msg_timestamp = 5, isError = None,
       groundingChunks = Some [example_webA, example_mapM1, example_webB, example_mapM2] \<rparr>"

section \<open>Trigonometric values\<close>

lemma arctan_sqrt3: "arctan (sqrt 3) = pi / 3"
proof (rule arctan_unique)
  show "- (pi / 2) < pi / 3" using pi_gt_zero by linarith
  show "pi / 3 < pi / 2" using pi_gt_zero by simp
  show "tan (pi / 3) = sqrt 3" by (rule tan_60)
qed

lemma arcsin_sqrt_half: "arcsin (sqrt (1 / 2)) = pi / 4"
proof -
  have "sin (pi / 4) = sqrt (1 / 2)"
    by (simp add: sin_45 real_sqrt_divide real_div_sqrt)
  moreover have "arcsin (sin (pi / 4)) = pi / 4"
    by (rule arcsin_sin) simp_all
  ultimately show ?thesis by simp
qed

section \<open>The distance and the jitter filter\<close>

lemma getDistance_pole_60:
  "getDistanceFromLatLonInMeters 0 0 90 60 = Some (6371000 * (2 * pi / 3))"
proof -
  have a: "sin (pi / 4) * sin (pi / 4) + sin (pi / 6) * sin (pi / 6) = 3 / 4"
    by (simp add: sin_45 sin_30)
  have s1: "sqrt (3 / 4) = sqrt 3 / 2" by (simp add: real_sqrt_divide)
  have s2: "sqrt (1 / 4) = 1 / 2" by (simp add: real_sqrt_divide)
  show ?thesis
    unfolding getDistanceFromLatLonInMeters_def deg2rad_def Let_def
    by (simp add: a Math_sqrt_def Math_atan2_def s1 s2 arctan_sqrt3 real_sqrt_divide)
qed

lemma haversine_pole_60: "haversine_meters 0 0 90 60 = 6371000 * (pi / 2)"
  unfolding haversine_meters_def Let_def
  using arcsin_sqrt_half by (simp add: power2_eq_square sin_45 real_sqrt_divide)

lemma getDistance_NaN: "getDistanceFromLatLonInMeters 0 0 60 180 = None"
proof -
  have "sin (pi / 6) * sin (pi / 6) + sin (pi / 2) * sin (pi / 2) = 5 / 4"
    by (simp add: sin_30)
  then show ?thesis
    unfolding getDistanceFromLatLonInMeters_def deg2rad_def Let_def
    by (simp add: Math_sqrt_def)
qed

text \<open>
  C1. The distance of the jitter filter is claimed to be the haversine great-circle
  distance. The source squares the cosine of the first latitude where the formula
  multiplies the cosines of both latitudes. From (0, 0) to (90, 60) the haversine
  distance is a quarter of a great circle, \<open>6371000 * pi / 2\<close> meters, and the code
  returns \<open>6371000 * 2 * pi / 3\<close>.
\<close>

theorem getDistance_differs_from_haversine:
  "getDistanceFromLatLonInMeters 0 0 90 60 = Some (6371000 * (2 * pi / 3)) \<and>
   haversine_meters 0 0 90 60 = 6371000 * (pi / 2) \<and>
   getDistanceFromLatLonInMeters 0 0 90 60 \<noteq> Some (haversine_meters 0 0 90 60)"
  using pi_gt_zero by (simp add: getDistance_pole_60 haversine_pole_60)

lemma equator_distance:
  assumes "0 \<le> t" "t < pi"
  shows "getDistanceFromLatLonInMeters 0 0 0 (t * 180 / pi) = Some (6371000 * t)"
proof -
  have h: "0 \<le> t / 2" "t / 2 < pi / 2" using assms by simp_all
  have s: "0 \<le> sin (t / 2)" using h by (intro sin_ge_zero) simp_all
  have c: "0 < cos (t / 2)" using h by (intro cos_gt_zero_pi) simp_all
  have sq: "1 - sin (t / 2) * sin (t / 2) = cos (t / 2) * cos (t / 2)"
    using sin_cos_squared_add [of "t / 2"] by (simp add: power2_eq_square)
  then have a2: "sqrt (1 - sin (t / 2) * sin (t / 2)) = cos (t / 2)"
    using c by simp
  have a3: "0 \<le> 1 - sin (t / 2) * sin (t / 2)"
    using sq by simp
  have at: "arctan (sin (t / 2) / cos (t / 2)) = t / 2"
    using arctan_tan [of "t / 2"] h by (simp add: tan_def)
  show ?thesis
    unfolding getDistanceFromLatLonInMeters_def deg2rad_def Let_def
    using a3 c s by (simp add: Math_sqrt_def Math_atan2_def a2 at)
qed

text \<open>
  C2. The jitter filter accepts a fix when no position has been accepted yet; otherwise
  it accepts exactly when the computed distance to the last accepted position is
  strictly greater than 20 meters or more than 60000 ms have passed since it was
  accepted. Below 60000 ms a distance of exactly 20 is rejected and one of 20.01 is
  accepted; a distance of 0 after 60001 ms is accepted.
\<close>

theorem jitter_filter_decision:
  "shouldUpdate None la lo now \<and>
   (shouldUpdate (Some l) la lo now \<longleftrightarrow>
      number_gt (getDistanceFromLatLonInMeters (lat l) (lng l) la lo) 20
      \<or> now - timestamp l > 60000) \<and>
   (getDistanceFromLatLonInMeters (lat l) (lng l) la lo = Some d \<longrightarrow>
      (shouldUpdate (Some l) la lo now \<longleftrightarrow> d > 20 \<or> now - timestamp l > 60000)) \<and>
   (getDistanceFromLatLonInMeters (lat l) (lng l) la lo = Some 20 \<and> now - timestamp l < 60000 \<longrightarrow>
      \<not> shouldUpdate (Some l) la lo now) \<and>
   (getDistanceFromLatLonInMeters (lat l) (lng l) la lo = Some 20.01 \<and> now - timestamp l < 60000 \<longrightarrow>
      shouldUpdate (Some l) la lo now) \<and>
   (getDistanceFromLatLonInMeters (lat l) (lng l) la lo = Some 0 \<and> now - timestamp l = 60001 \<longrightarrow>
      shouldUpdate (Some l) la lo now)"
  by (simp add: shouldUpdate_def number_gt_def Let_def)

theorem jitter_filter_decision_witness:
  "\<not> shouldUpdate (Some \<lparr> lat = 0, lng = 0, timestamp = 1000 \<rparr>)
        0 ((20 / 6371000) * 180 / pi) 60999 \<and>
   shouldUpdate (Some \<lparr> lat = 0, lng = 0, timestamp = 1000 \<rparr>)
        0 ((20.01 / 6371000) * 180 / pi) 60999 \<and>
   shouldUpdate (Some \<lparr> lat = 0, lng = 0, timestamp = 1000 \<rparr>)
        0 (0 * 180 / pi) 61001"
proof -
  let ?L = "\<lparr> lat = 0, lng = 0, timestamp = 1000 \<rparr>"
  let ?x = "(20 / 6371000) * 180 / pi"
  let ?y = "(20.01 / 6371000) * 180 / pi"
  let ?z = "0 * 180 / pi"
  have "getDistanceFromLatLonInMeters 0 0 0 ?x = Some 20"
    using equator_distance [of "20 / 6371000"] pi_ge_two by simp
  then have d20: "getDistanceFromLatLonInMeters (lat ?L) (lng ?L) 0 ?x = Some 20 \<and>
      60999 - timestamp ?L < 60000"
    by simp
  have "getDistanceFromLatLonInMeters 0 0 0 ?y = Some 20.01"
    using equator_distance [of "20.01 / 6371000"] pi_ge_two by simp
  then have d2001: "getDistanceFromLatLonInMeters (lat ?L) (lng ?L) 0 ?y = Some 20.01 \<and>
      60999 - timestamp ?L < 60000"
    by simp
  have "getDistanceFromLatLonInMeters 0 0 0 ?z = Some 0"
    using equator_distance [of 0] pi_gt_zero by simp
  then have d0: "getDistanceFromLatLonInMeters (lat ?L) (lng ?L) 0 ?z = Some 0 \<and>
      61001 - timestamp ?L = 60001"
    by simp
  have r1: "\<not> shouldUpdate (Some ?L) 0 ?x 60999"
    using jitter_filter_decision [of 0 ?x 60999 ?L 20] d20 by blast
  have r2: "shouldUpdate (Some ?L) 0 ?y 60999"
    using jitter_filter_decision [of 0 ?y 60999 ?L "20.01"] d2001 by blast
  have r3: "shouldUpdate (Some ?L) 0 ?z 61001"
    using jitter_filter_decision [of 0 ?z 61001 ?L 0] d0 by blast
  from r1 r2 r3 show ?thesis by blast
qed

section \<open>One submit, from start to settlement\<close>

lemma messages_begin:
  "messages (fst (handleSendMessage_begin st txt uuid now)) =
     messages st @ [\<lparr> msg_id = uuid, msg_role = user, msg_text = txt, msg_timestamp = now,
                      isError = None, groundingChunks = None \<rparr>]"
  by (simp add: handleSendMessage_begin_def Let_def)

lemma isLoading_begin: "isLoading (fst (handleSendMessage_begin st txt uuid now))"
  by (simp add: handleSendMessage_begin_def Let_def)

lemma isLoading_end: "\<not> isLoading (handleSendMessage_end st outcome uuid now)"
  by (simp add: handleSendMessage_end_def Let_def)

lemma messages_end_Failed:
  "messages (handleSendMessage_end st Failed uuid now) =
     messages st @ [\<lparr> msg_id = uuid, msg_role = model,
                      msg_text = js ''I'm having trouble accessing the network right now. Please try again.'',
                      msg_timestamp = now, isError = Some True, groundingChunks = None \<rparr>]"
  by (simp add: handleSendMessage_end_def sendMessageToGemini_result_def Let_def)

lemma messages_end_Answered:
  "messages (handleSendMessage_end st (Answered t g) uuid now) =
     messages st @ [\<lparr> msg_id = uuid, msg_role = model, msg_text = t,
                      msg_timestamp = now, isError = None, groundingChunks = g \<rparr>]"
  by (simp add: handleSendMessage_end_def sendMessageToGemini_result_def Let_def)

text \<open>
  C6. A submit whose call to the remote service fails, for any text, appends exactly two
  messages, the user message and then a model message with \<open>isError\<close> set, the fixed
  apology text and no grounding chunks, and ends with the loading flag down; the flag is
  lowered when the call settles, whatever the outcome.
\<close>

theorem failed_submit_appends_user_then_error:
  "messages (handleSendMessage st txt uuid1 now1 Failed uuid2 now2) =
     messages st @
     [\<lparr> msg_id = uuid1, msg_role = user, msg_text = txt, msg_timestamp = now1,
        isError = None, groundingChunks = None \<rparr>,
      \<lparr> msg_id = uuid2, msg_role = model,
        msg_text = js ''I'm having trouble accessing the network right now. Please try again.'',
        msg_timestamp = now2, isError = Some True, groundingChunks = None \<rparr>] \<and>
   length (messages (handleSendMessage st txt uuid1 now1 Failed uuid2 now2)) =
     length (messages st) + 2 \<and>
   \<not> isLoading (handleSendMessage st txt uuid1 now1 Failed uuid2 now2) \<and>
   \<not> isLoading (handleSendMessage_end st' outcome uuid now)"
  by (simp add: handleSendMessage_def messages_end_Failed messages_begin isLoading_end)

text \<open>
  C7. A submit whose call to the remote service succeeds appends exactly two messages,
  the user message and then a model message with the text and the grounding chunks of
  the response, and ends with the loading flag down.
\<close>

theorem successful_submit_appends_user_then_model:
  "messages (handleSendMessage st txt uuid1 now1 (Answered t g) uuid2 now2) =
     messages st @
     [\<lparr> msg_id = uuid1, msg_role = user, msg_text = txt, msg_timestamp = now1,
        isError = None, groundingChunks = None \<rparr>,
      \<lparr> msg_id = uuid2, msg_role = model, msg_text = t,
        msg_timestamp = now2, isError = None, groundingChunks = g \<rparr>] \<and>
   length (messages (handleSendMessage st txt uuid1 now1 (Answered t g) uuid2 now2)) =
     length (messages st) + 2 \<and>
   \<not> isLoading (handleSendMessage st txt uuid1 now1 (Answered t g) uuid2 now2)"
  by (simp add: handleSendMessage_def messages_end_Answered messages_begin isLoading_end)

lemma request_begin:
  "snd (handleSendMessage_begin st txt uuid now) =
     sendMessageToGemini_request (messages st) txt (preferences st) (userLocation st)"
  by (simp add: handleSendMessage_begin_def Let_def)

text \<open>
  C8. The history sent with a submit is the role and text of the messages of the
  conversation before the submit that are not errors, in order; its length is the number
  of those messages; the new text is the live message, and the new user message is
  appended to the conversation, not to the history.
\<close>

theorem outbound_history_is_prior_non_error_messages:
  "req_history (snd (handleSendMessage_begin st txt uuid now)) =
     map (\<lambda>m. (msg_role m, msg_text m)) (filter (\<lambda>m. isError m \<noteq> Some True) (messages st)) \<and>
   length (req_history (snd (handleSendMessage_begin st txt uuid now))) =
     length (messages st) - length (filter (\<lambda>m. isError m = Some True) (messages st)) \<and>
   req_message (snd (handleSendMessage_begin st txt uuid now)) = txt \<and>
   messages (fst (handleSendMessage_begin st txt uuid now)) =
     messages st @ [\<lparr> msg_id = uuid, msg_role = user, msg_text = txt, msg_timestamp = now,
                      isError = None, groundingChunks = None \<rparr>]"
proof -
  have "length (filter (\<lambda>m. isError m \<noteq> Some True) (messages st)) =
        length (messages st) - length (filter (\<lambda>m. isError m = Some True) (messages st))"
    using sum_length_filter_compl [of "\<lambda>m. isError m = Some True" "messages st"] by simp
  then show ?thesis
    by (simp add: request_begin sendMessageToGemini_request_def validHistory_def messages_begin)
qed

text \<open>
  C9. The instruction text of a request is a function of the preferences and the
  location: two states with equal preferences and equal location, whatever their
  conversations, loading flags and submitted texts, produce the same instruction, piece
  by piece and so in every rendering of its numbers.
\<close>

theorem instruction_depends_on_preferences_and_location_only:
  "preferences s1 = preferences s2 \<Longrightarrow> userLocation s1 = userLocation s2 \<Longrightarrow>
   req_systemInstruction (snd (handleSendMessage_begin s1 txt1 uuid1 now1)) =
     getSystemInstruction (preferences s1) (userLocation s1) \<and>
   req_systemInstruction (snd (handleSendMessage_begin s1 txt1 uuid1 now1)) =
     req_systemInstruction (snd (handleSendMessage_begin s2 txt2 uuid2 now2)) \<and>
   render f (req_systemInstruction (snd (handleSendMessage_begin s1 txt1 uuid1 now1))) =
     render f (req_systemInstruction (snd (handleSendMessage_begin s2 txt2 uuid2 now2)))"
  by (simp add: request_begin sendMessageToGemini_request_def)

theorem instruction_depends_on_preferences_and_location_only_witness:
  "preferences (initial_state 0) =
     preferences (handleSendMessage (initial_state 0) (js ''hi'') (js ''u1'') 1 Failed (js ''u2'') 2) \<and>
   userLocation (initial_state 0) =
     userLocation (handleSendMessage (initial_state 0) (js ''hi'') (js ''u1'') 1 Failed (js ''u2'') 2) \<and>
   messages (initial_state 0) \<noteq>
     messages (handleSendMessage (initial_state 0) (js ''hi'') (js ''u1'') 1 Failed (js ''u2'') 2) \<and>
   req_systemInstruction (snd (handleSendMessage_begin (initial_state 0) (js ''a'') (js ''u3'') 3)) =
     req_systemInstruction (snd (handleSendMessage_begin
       (handleSendMessage (initial_state 0) (js ''hi'') (js ''u1'') 1 Failed (js ''u2'') 2)
       (js ''b'') (js ''u4'') 4))"
proof -
  let ?s2 = "handleSendMessage (initial_state 0) (js ''hi'') (js ''u1'') 1 Failed (js ''u2'') 2"
  have p: "preferences (initial_state 0) = preferences ?s2"
    by (simp add: handleSendMessage_def handleSendMessage_begin_def handleSendMessage_end_def
        sendMessageToGemini_result_def Let_def)
  have u: "userLocation (initial_state 0) = userLocation ?s2"
    by (simp add: handleSendMessage_def handleSendMessage_begin_def handleSendMessage_end_def
        sendMessageToGemini_result_def Let_def)
  have m: "messages (initial_state 0) \<noteq> messages ?s2"
    by (simp add: handleSendMessage_def messages_end_Failed messages_begin)
  show ?thesis
    using instruction_depends_on_preferences_and_location_only [OF p u] p u m by blast
qed

section \<open>Blank input\<close>

lemma trim_all_whitespace:
  assumes "\<forall>c\<in>set s. isWhiteSpace c"
  shows "trim s = []"
  using assms by (auto simp: trim_def dest: set_dropWhileD)

lemma trim_empty_iff: "trim s = [] \<longleftrightarrow> (\<forall>c\<in>set s. isWhiteSpace c)"
proof
  assume "trim s = []"
  then have "dropWhile isWhiteSpace (rev (dropWhile isWhiteSpace s)) = []"
    by (simp add: trim_def)
  then have "\<forall>c\<in>set (dropWhile isWhiteSpace s). isWhiteSpace c"
    by (simp add: dropWhile_eq_Nil_conv)
  then have "dropWhile isWhiteSpace s = []"
    by (metis dropWhile_eq_Nil_conv dropWhile_idem)
  then show "\<forall>c\<in>set s. isWhiteSpace c"
    by (simp add: dropWhile_eq_Nil_conv)
qed (rule trim_all_whitespace)

text \<open>
  C3, as stated, fails on \<open>handleSendMessage\<close>: called with three spaces, or with the
  empty string, it appends a user message, raises the loading flag and issues a request.
\<close>

theorem core_submit_accepts_blank_text:
  "messages (fst (handleSendMessage_begin (initial_state 0) (js ''   '') (js ''u1'') 1)) =
     messages (initial_state 0) @
       [\<lparr> msg_id = js ''u1'', msg_role = user, msg_text = js ''   '', msg_timestamp = 1,
          isError = None, groundingChunks = None \<rparr>] \<and>
   \<not> isLoading (initial_state 0) \<and>
   isLoading (fst (handleSendMessage_begin (initial_state 0) (js ''   '') (js ''u1'') 1)) \<and>
   req_message (snd (handleSendMessage_begin (initial_state 0) (js ''   '') (js ''u1'') 1)) = js ''   '' \<and>
   messages (fst (handleSendMessage_begin (initial_state 0) [] (js ''u1'') 1)) \<noteq>
     messages (initial_state 0) \<and>
   inflight (fire (initial_world 0) (CoreSend [] (js ''u1'') 1)) \<noteq> inflight (initial_world 0)"
  by (simp add: messages_begin isLoading_begin request_begin sendMessageToGemini_request_def
      initial_state_def initial_world_def send_def)

text \<open>
  C3, amended. The check is in the \<open>InputArea\<close>: when its input consists of whitespace
  only, \<open>handleSubmit\<close> does not call \<open>onSend\<close>, and the world is unchanged: no message
  is appended, the loading flag keeps its value and no request is issued.
\<close>

theorem blank_input_is_not_sent:
  "\<forall>c\<in>set (input w). isWhiteSpace c \<Longrightarrow>
     handleSubmit (input w) (isLoading (app w)) = (None, input w) \<and>
     fire w (SubmitForm uuid now) = w"
  by (simp add: handleSubmit_def trim_all_whitespace)

theorem blank_input_is_not_sent_witness:
  "fire ((initial_world 0)\<lparr> input := js ''   '' \<rparr>) (SubmitForm (js ''u1'') 1) =
     (initial_world 0)\<lparr> input := js ''   '' \<rparr> \<and>
   fire (initial_world 0) (SubmitForm (js ''u1'') 1) = initial_world 0"
proof -
  have a: "\<forall>c\<in>set (input ((initial_world 0)\<lparr> input := js ''   '' \<rparr>)). isWhiteSpace c"
    by (simp add: js_def isWhiteSpace_def)
  have b: "\<forall>c\<in>set (input (initial_world 0)). isWhiteSpace c"
    by (simp add: initial_world_def)
  show ?thesis
    using blank_input_is_not_sent [OF a] blank_input_is_not_sent [OF b] by blast
qed

section \<open>The single-map selection\<close>

lemma primaryMapChunk_find:
  "primaryMapChunk m =
     (case groundingChunks m of None \<Rightarrow> None | Some cs \<Rightarrow> find hasMapUri cs)"
proof (cases "groundingChunks m")
  case None
  then show ?thesis by (simp add: primaryMapChunk_def mapChunks_def)
next
  case (Some cs)
  have "find hasMapUri cs = (case filter hasMapUri cs of [] \<Rightarrow> None | x # xs \<Rightarrow> Some x)"
    by (induction cs) auto
  with Some show ?thesis
    by (auto simp: primaryMapChunk_def mapChunks_def split: list.splits)
qed

text \<open>
  C4, amended. The single-map selection yields the first chunk, in source order, that has
  a map with a non-empty uri, and nothing when the message has no such chunk or no chunk
  list; web citations are not part of its result.
\<close>

theorem primaryMapChunk_is_first_map_chunk:
  "(primaryMapChunk m = Some c \<longleftrightarrow>
      (\<exists>pre post. groundingChunks m = Some (pre @ c # post) \<and> hasMapUri c \<and>
         (\<forall>x\<in>set pre. \<not> hasMapUri x))) \<and>
   (primaryMapChunk m = None \<longleftrightarrow>
      (\<forall>cs. groundingChunks m = Some cs \<longrightarrow> (\<forall>x\<in>set cs. \<not> hasMapUri x)))"
proof (cases "groundingChunks m")
  case None
  then show ?thesis by (simp add: primaryMapChunk_find)
next
  case (Some cs)
  have 1: "find hasMapUri cs = Some c \<longleftrightarrow>
      (\<exists>pre post. cs = pre @ c # post \<and> hasMapUri c \<and> (\<forall>x\<in>set pre. \<not> hasMapUri x))"
  proof
    assume "find hasMapUri cs = Some c"
    then obtain i where i: "i < length cs" "hasMapUri (cs ! i)" "c = cs ! i"
      "\<forall>j<i. \<not> hasMapUri (cs ! j)"
      by (auto simp: find_Some_iff)
    have "cs = take i cs @ c # drop (Suc i) cs"
      using i by (simp add: id_take_nth_drop)
    moreover have "\<forall>x\<in>set (take i cs). \<not> hasMapUri x"
      using i by (auto simp: in_set_conv_nth)
    ultimately show "\<exists>pre post. cs = pre @ c # post \<and> hasMapUri c \<and> (\<forall>x\<in>set pre. \<not> hasMapUri x)"
      using i by blast
  next
    assume "\<exists>pre post. cs = pre @ c # post \<and> hasMapUri c \<and> (\<forall>x\<in>set pre. \<not> hasMapUri x)"
    then obtain pre post where p: "cs = pre @ c # post" "hasMapUri c" "\<forall>x\<in>set pre. \<not> hasMapUri x"
      by blast
    have "find hasMapUri (pre @ c # post) = Some c"
      using p(2,3) by (induction pre) auto
    with p show "find hasMapUri cs = Some c" by simp
  qed
  have 2: "find hasMapUri cs = None \<longleftrightarrow> (\<forall>x\<in>set cs. \<not> hasMapUri x)"
    by (auto simp: find_None_iff)
  from Some 1 2 show ?thesis by (simp add: primaryMapChunk_find)
qed

lemma example_hasMapUri:
  "\<not> hasMapUri example_webA" "hasMapUri example_mapM1"
  "\<not> hasMapUri example_webB" "hasMapUri example_mapM2"
  by (simp_all add: hasMapUri_def example_webA_def example_mapM1_def example_webB_def
      example_mapM2_def js_def)

lemma example_maps:
  "maps example_webA = None" "maps example_mapM1 \<noteq> None"
  "maps example_webB = None" "maps example_mapM2 \<noteq> None"
  by (simp_all add: example_webA_def example_mapM1_def example_webB_def example_mapM2_def)

lemma example_primary: "primaryMapChunk example_message = Some example_mapM1"
  by (simp add: primaryMapChunk_def mapChunks_def example_message_def example_hasMapUri)

text \<open>
  C4, as stated, fails: for the chunks web A, map M1, web B, map M2 the specification's
  reconciler gives web A, map M1, web B, and the code's selection gives map M1 alone.
\<close>

theorem single_map_selection_drops_web_citations:
  "primaryMapChunk example_message = Some example_mapM1 \<and>
   reconcile_spec False [example_webA, example_mapM1, example_webB, example_mapM2] =
     [example_webA, example_mapM1, example_webB] \<and>
   set_option (primaryMapChunk example_message) \<noteq>
     set (reconcile_spec False [example_webA, example_mapM1, example_webB, example_mapM2])"
proof -
  have r: "reconcile_spec False [example_webA, example_mapM1, example_webB, example_mapM2] =
     [example_webA, example_mapM1, example_webB]"
    by (simp add: example_maps)
  have "example_webA \<noteq> example_mapM1"
    by (simp add: example_webA_def example_mapM1_def)
  then have "set_option (Some example_mapM1) \<noteq> set [example_webA, example_mapM1, example_webB]"
    by auto
  with r example_primary show ?thesis by simp
qed

theorem primaryMapChunk_is_first_map_chunk_witness:
  "primaryMapChunk example_message = Some example_mapM1 \<and>
   (\<exists>pre post. groundingChunks example_message = Some (pre @ example_mapM1 # post) \<and>
      hasMapUri example_mapM1 \<and> (\<forall>x\<in>set pre. \<not> hasMapUri x)) \<and>
   primaryMapChunk (example_message\<lparr> groundingChunks := Some [example_webA, example_webB] \<rparr>) = None \<and>
   primaryMapChunk (example_message\<lparr> groundingChunks := None \<rparr>) = None"
proof -
  have a: "\<forall>cs. groundingChunks (example_message\<lparr> groundingChunks := Some [example_webA, example_webB] \<rparr>) = Some cs
      \<longrightarrow> (\<forall>x\<in>set cs. \<not> hasMapUri x)"
    by (simp add: example_hasMapUri)
  have b: "\<forall>cs. groundingChunks (example_message\<lparr> groundingChunks := None \<rparr>) = Some cs
      \<longrightarrow> (\<forall>x\<in>set cs. \<not> hasMapUri x)"
    by simp
  show ?thesis
    using primaryMapChunk_is_first_map_chunk [of example_message example_mapM1]
      primaryMapChunk_is_first_map_chunk
        [of "example_message\<lparr> groundingChunks := Some [example_webA, example_webB] \<rparr>" example_mapM1]
      primaryMapChunk_is_first_map_chunk
        [of "example_message\<lparr> groundingChunks := None \<rparr>" example_mapM1]
      example_primary a b
    by blast
qed

section \<open>One request at a time\<close>

lemma messages_end:
  "\<exists>m. messages (handleSendMessage_end st outcome uuid now) = messages st @ [m]"
  by (cases outcome) (simp_all add: handleSendMessage_end_def sendMessageToGemini_result_def Let_def)

lemma success_keeps:
  "isLoading (success st la lo now) = isLoading st"
  "messages (success st la lo now) = messages st"
  "preferences (success st la lo now) = preferences st"
  by (simp_all add: success_def)

lemma send_fields:
  "isLoading (app (send w txt uuid now))"
  "inflight (send w txt uuid now) = inflight w @ [snd (handleSendMessage_begin (app w) txt uuid now)]"
  "messages (app (send w txt uuid now)) = messages (app w) @
     [\<lparr> msg_id = uuid, msg_role = user, msg_text = txt, msg_timestamp = now,
        isError = None, groundingChunks = None \<rparr>]"
  "input (send w txt uuid now) = input w"
  by (simp_all add: send_def isLoading_begin messages_begin)

lemma run_Nil: "run w [] = w"
  by (simp add: run_def)

lemma run_Cons: "run w (e # es) = run (fire w e) es"
  by (simp add: run_def)

lemma fire_single_flight:
  assumes "viaInputArea e"
    and "length (inflight w) \<le> 1" and "isLoading (app w) \<longleftrightarrow> inflight w \<noteq> []"
  shows "length (inflight (fire w e)) \<le> 1 \<and>
         (isLoading (app (fire w e)) \<longleftrightarrow> inflight (fire w e) \<noteq> [])"
proof (cases e)
  case (Typed s)
  with assms show ?thesis by simp
next
  case (SubmitForm uuid now)
  show ?thesis
  proof (cases "trim (input w) = [] \<or> isLoading (app w)")
    case True
    with assms SubmitForm show ?thesis by (simp add: handleSubmit_def)
  next
    case False
    then have "fire w e = (send w (input w) uuid now)\<lparr> input := [] \<rparr>"
      using SubmitForm by (simp add: handleSubmit_def)
    moreover have "inflight w = []" using False assms by simp
    ultimately show ?thesis by (simp add: send_fields)
  qed
next
  case (CoreSend t uuid now)
  with assms show ?thesis by simp
next
  case (Settled i outcome uuid now)
  show ?thesis
  proof (cases "i < length (inflight w)")
    case True
    then have "i = 0" "length (inflight w) = 1" using assms by simp_all
    then have z: "take i (inflight w) @ drop (Suc i) (inflight w) = []" by simp
    have "inflight (fire w e) = take i (inflight w) @ drop (Suc i) (inflight w)"
      using True Settled by simp
    then have n: "inflight (fire w e) = []" using z by (simp only:)
    have "app (fire w e) = handleSendMessage_end (app w) outcome uuid now"
      using True Settled by simp
    then show ?thesis using n by (simp add: isLoading_end)
  next
    case False
    with assms Settled show ?thesis by simp
  qed
next
  case (Fix la lo now)
  with assms show ?thesis by (simp add: success_keeps)
next
  case (FallbackFix la lo now)
  with assms show ?thesis by simp
next
  case (SetPreferences p)
  with assms show ?thesis by simp
qed

lemma run_single_flight:
  "\<forall>e\<in>set es. viaInputArea e \<Longrightarrow>
   length (inflight w) \<le> 1 \<Longrightarrow> (isLoading (app w) \<longleftrightarrow> inflight w \<noteq> []) \<Longrightarrow>
   length (inflight (run w es)) \<le> 1 \<and>
   (isLoading (app (run w es)) \<longleftrightarrow> inflight (run w es) \<noteq> [])"
proof (induction es arbitrary: w)
  case Nil
  then show ?case by (simp add: run_Nil)
next
  case (Cons e es)
  have "viaInputArea e" using Cons.prems(1) by simp
  from fire_single_flight [OF this Cons.prems(2) Cons.prems(3)]
  have "length (inflight (fire w e)) \<le> 1"
    and "isLoading (app (fire w e)) \<longleftrightarrow> inflight (fire w e) \<noteq> []"
    by simp_all
  moreover have "\<forall>x\<in>set es. viaInputArea x" using Cons.prems(1) by simp
  ultimately show ?case using Cons.IH [of "fire w e"] by (simp add: run_Cons)
qed

lemma submit_while_loading: "isLoading (app w) \<Longrightarrow> fire w (SubmitForm uuid now) = w"
  by (simp add: handleSubmit_def)

text \<open>
  C5, as stated, fails on \<open>handleSendMessage\<close>: called while the loading flag is up, it
  issues a second request while the first is still in flight.
\<close>

theorem core_submit_while_loading_starts_second_call:
  "isLoading (app (run (initial_world 0) [CoreSend (js ''a'') (js ''u1'') 1])) \<and>
   length (inflight (run (initial_world 0) [CoreSend (js ''a'') (js ''u1'') 1])) = 1 \<and>
   length (inflight (run (initial_world 0)
      [CoreSend (js ''a'') (js ''u1'') 1, CoreSend (js ''b'') (js ''u2'') 2])) = 2"
  by (simp add: run_Cons run_Nil send_fields initial_world_def)

text \<open>
  C5, amended. The gate is in the \<open>InputArea\<close>: when every submit goes through
  \<open>handleSubmit\<close>, at most one request is in flight in every reachable world, the
  loading flag is up exactly while one is, and a submit while it is up changes nothing.
\<close>

theorem single_flight_through_input_area:
  "\<forall>e\<in>set es. viaInputArea e \<Longrightarrow>
   length (inflight (run (initial_world t0) es)) \<le> 1 \<and>
   (isLoading (app (run (initial_world t0) es)) \<longleftrightarrow> inflight (run (initial_world t0) es) \<noteq> []) \<and>
   (isLoading (app (run (initial_world t0) es)) \<longrightarrow>
      fire (run (initial_world t0) es) (SubmitForm uuid now) = run (initial_world t0) es)"
proof -
  assume a: "\<forall>e\<in>set es. viaInputArea e"
  have "length (inflight (initial_world t0)) \<le> 1"
    and "isLoading (app (initial_world t0)) \<longleftrightarrow> inflight (initial_world t0) \<noteq> []"
    by (simp_all add: initial_world_def initial_state_def)
  from run_single_flight [OF a this]
  have "length (inflight (run (initial_world t0) es)) \<le> 1"
    and "isLoading (app (run (initial_world t0) es)) \<longleftrightarrow> inflight (run (initial_world t0) es) \<noteq> []"
    by blast+
  then show ?thesis
    using submit_while_loading [of "run (initial_world t0) es" uuid now] by blast
qed

theorem single_flight_through_input_area_witness:
  "length (inflight (run (initial_world 0)
      [Typed (js ''hi''), SubmitForm (js ''u1'') 1, Typed (js ''more''), SubmitForm (js ''u2'') 2])) = 1 \<and>
   isLoading (app (run (initial_world 0)
      [Typed (js ''hi''), SubmitForm (js ''u1'') 1, Typed (js ''more''), SubmitForm (js ''u2'') 2])) \<and>
   fire (run (initial_world 0)
      [Typed (js ''hi''), SubmitForm (js ''u1'') 1, Typed (js ''more''), SubmitForm (js ''u2'') 2])
      (SubmitForm (js ''u3'') 3) =
     run (initial_world 0)
      [Typed (js ''hi''), SubmitForm (js ''u1'') 1, Typed (js ''more''), SubmitForm (js ''u2'') 2]"
proof -
  let ?es = "[Typed (js ''hi''), SubmitForm (js ''u1'') 1, Typed (js ''more''), SubmitForm (js ''u2'') 2]"
  have v: "\<forall>e\<in>set ?es. viaInputArea e" by simp
  have t: "trim (js ''hi'') \<noteq> []"
    by (simp add: trim_def js_def isWhiteSpace_def)
  have l: "isLoading (app (run (initial_world 0) ?es))"
    using t by (simp add: run_Cons run_Nil handleSubmit_def send_fields initial_world_def
        initial_state_def)
  from single_flight_through_input_area [OF v, of 0 "js ''u3''" 3] l
  have "length (inflight (run (initial_world 0) ?es)) \<le> 1"
    and "inflight (run (initial_world 0) ?es) \<noteq> []"
    and "fire (run (initial_world 0) ?es) (SubmitForm (js ''u3'') 3) = run (initial_world 0) ?es"
    by blast+
  moreover from this(1,2) have "length (inflight (run (initial_world 0) ?es)) = 1"
    by (cases "inflight (run (initial_world 0) ?es)") simp_all
  ultimately show ?thesis using l by blast
qed

section \<open>The conversation only grows\<close>

lemma fire_appends: "prefix (messages (app w)) (messages (app (fire w e)))"
proof (cases e)
  case (SubmitForm uuid now)
  then show ?thesis
    by (cases "trim (input w) = [] \<or> isLoading (app w)")
      (simp_all add: handleSubmit_def send_fields)
next
  case (Settled i outcome uuid now)
  then show ?thesis
    using messages_end [of "app w" outcome uuid now] by auto
qed (simp_all add: send_fields success_keeps)

lemma run_appends: "prefix (messages (app w)) (messages (app (run w es)))"
proof (induction es arbitrary: w)
  case Nil
  then show ?case by (simp add: run_Nil)
next
  case (Cons e es)
  have "prefix (messages (app w)) (messages (app (fire w e)))" by (rule fire_appends)
  also have "prefix \<dots> (messages (app (run (fire w e) es)))" by (rule Cons.IH)
  finally show ?case by (simp add: run_Cons)
qed

text \<open>
  C10. The conversation starts as the welcome message alone, with id \<open>welcome\<close> and
  role \<open>model\<close>; every event extends the conversation at its end; so in every reachable
  world the conversation is non-empty and begins with the welcome message, and the
  history of a request issued there begins with the welcome text.
\<close>

theorem welcome_message_stays_first:
  "msg_id (welcome_message t0) = js ''welcome'' \<and>
   msg_role (welcome_message t0) = model \<and>
   messages (app (initial_world t0)) = [welcome_message t0] \<and>
   prefix (messages (app w)) (messages (app (fire w e))) \<and>
   messages (app (run (initial_world t0) es)) \<noteq> [] \<and>
   prefix [welcome_message t0] (messages (app (run (initial_world t0) es))) \<and>
   prefix [(model, welcome_text)]
     (req_history (snd (handleSendMessage_begin (app (run (initial_world t0) es)) txt uuid now)))"
proof -
  have i: "messages (app (initial_world t0)) = [welcome_message t0]"
    by (simp add: initial_world_def initial_state_def)
  have p: "prefix [welcome_message t0] (messages (app (run (initial_world t0) es)))"
    using run_appends [of "initial_world t0" es] i by simp
  then obtain ys where ys: "messages (app (run (initial_world t0) es)) = welcome_message t0 # ys"
    by (auto simp: prefix_def)
  have "req_history (snd (handleSendMessage_begin (app (run (initial_world t0) es)) txt uuid now)) =
      (model, welcome_text) # map (\<lambda>m. (msg_role m, msg_text m)) (validHistory ys)"
    by (simp add: request_begin sendMessageToGemini_request_def validHistory_def ys
        welcome_message_def)
  then have h: "prefix [(model, welcome_text)]
     (req_history (snd (handleSendMessage_begin (app (run (initial_world t0) es)) txt uuid now)))"
    by simp
  show ?thesis
    using i p h ys fire_appends [of w e] by (simp add: welcome_message_def)
qed

end
